theory Spec2Isabelle
  imports Complex_Main "HOL-Library.Sublist"
begin

section \<open>Python values handled by \<open>torchdynamo/testing.py\<close>\<close>

text \<open>
  The helpers of \<open>testing.py\<close> are dynamically typed: they inspect their arguments with
  \<open>isinstance\<close> and \<open>type(a).__name__\<close>. The values they can tell apart are collected in
  one datatype. Exceptions are values of type \<open>error\<close>; a call returns \<open>error + 'a\<close>,
  \<open>Inl\<close> being the raised exception. Output written with \<open>print\<close> is not modelled.
\<close>

datatype error =
    AssertionError
  | RuntimeError
  | KeyError
  | AttributeError
  | NotImplementedError
  | TypeError

text \<open>
  A Python \<open>float\<close> is a binary fraction, an infinity or a NaN. Every finite float is a
  rational number, so finite values are kept exactly (negative zero is left out).
\<close>

datatype pyfloat = Fin rat | PosInf | NegInf | NaN

record tensor =
  shape :: "nat list"
  elems :: "pyfloat list"
  requires_grad :: bool

datatype pykey = KStr string | KInt int

text \<open>A class is identified by its module and its \<open>__name__\<close>.\<close>

datatype pyclass = PyClass (class_module: string) (class_name: string)

text \<open>
  The four sequence classes of line 70. \<open>torch.Size\<close> is a subclass of \<open>tuple\<close>;
  \<open>torch.nn.ParameterList\<close> is a module, neither a list nor a tuple.
\<close>

datatype seq_kind = PyList | PyTuple | ParameterList | Size

text \<open>
  \<open>VDict c items attrs\<close> is an instance of \<open>dict\<close> or of a subclass \<open>c\<close> of it: its
  items in insertion order and the attributes of the instance (none for a plain
  \<open>dict\<close>). \<open>VObj c attrs\<close> is an instance of any other class, with its \<open>__dict__\<close>.
\<close>

datatype pyval =
    VNone
  | VBool bool
  | VInt int
  | VFloat pyfloat
  | VStr string
  | VDevice string "int option"
  | VTensor tensor
  | VSeq seq_kind "pyval list"
  | VDict pyclass "(pykey \<times> pyval) list" "(string \<times> pyval) list"
  | VObj pyclass "(string \<times> pyval) list"

definition dict_class :: pyclass where
  "dict_class = PyClass ''builtins'' ''dict''"

fun type_of :: "pyval \<Rightarrow> pyclass" where
  "type_of VNone = PyClass ''builtins'' ''NoneType''"
| "type_of (VBool _) = PyClass ''builtins'' ''bool''"
| "type_of (VInt _) = PyClass ''builtins'' ''int''"
| "type_of (VFloat _) = PyClass ''builtins'' ''float''"
| "type_of (VStr _) = PyClass ''builtins'' ''str''"
| "type_of (VDevice _ _) = PyClass ''torch'' ''device''"
| "type_of (VTensor _) = PyClass ''torch'' ''Tensor''"
| "type_of (VSeq PyList _) = PyClass ''builtins'' ''list''"
| "type_of (VSeq PyTuple _) = PyClass ''builtins'' ''tuple''"
| "type_of (VSeq ParameterList _) = PyClass ''torch.nn.modules.container'' ''ParameterList''"
| "type_of (VSeq Size _) = PyClass ''torch'' ''Size''"
| "type_of (VDict c _ _) = c"
| "type_of (VObj c _) = c"

text \<open>\<open>isinstance(b, (list, tuple))\<close>, for the class of a sequence.\<close>

fun is_list_or_tuple :: "seq_kind \<Rightarrow> bool" where
  "is_list_or_tuple PyList = True"
| "is_list_or_tuple PyTuple = True"
| "is_list_or_tuple Size = True"
| "is_list_or_tuple ParameterList = False"

text \<open>\<open>isinstance(out, tuple)\<close>, for the class of a sequence.\<close>

fun is_tuple :: "seq_kind \<Rightarrow> bool" where
  "is_tuple PyTuple = True"
| "is_tuple Size = True"
| "is_tuple _ = False"

text \<open>\<open>getattr(v, name)\<close>: instance attributes only; builtin values have none of these.\<close>

fun getattr :: "pyval \<Rightarrow> string \<Rightarrow> error + pyval" where
  "getattr (VDict c items attrs) name =
     (case map_of attrs name of None \<Rightarrow> Inl AttributeError | Some v \<Rightarrow> Inr v)"
| "getattr (VObj c attrs) name =
     (case map_of attrs name of None \<Rightarrow> Inl AttributeError | Some v \<Rightarrow> Inr v)"
| "getattr _ name = Inl AttributeError"

text \<open>\<open>d[k]\<close> on the items of a dict.\<close>

definition getitem :: "(pykey \<times> pyval) list \<Rightarrow> pykey \<Rightarrow> error + pyval" where
  "getitem items k = (case map_of items k of None \<Rightarrow> Inl KeyError | Some v \<Rightarrow> Inr v)"

section \<open>The operations of \<open>torch\<close> the helpers call\<close>

text \<open>
  The tensor library is not part of the file. Its operations are parameters of the model,
  one field per call site:
  \<^item> \<open>tensor_report a b\<close>: the diagnostics of lines 87 to 92 (\<open>allclose\<close>, \<open>flatten\<close>,
    \<open>CosineSimilarity\<close>, \<open>sort\<close> of the absolute differences), which print and may raise;
  \<open>None\<close> when they complete;
  \<^item> \<open>torch_eq a b\<close>: \<open>a == b\<close> when one side is a tensor or a device;
  \<^item> \<open>tensor_bool t\<close>: the truth value of a tensor;
  \<^item> \<open>tensor_sum t\<close>: \<open>t.sum()\<close>;
  \<^item> \<open>torch_add x y\<close>: \<open>x + y\<close> when one side is a tensor;
  \<^item> \<open>detach\<close>, \<open>clone\<close>, \<open>requires_grad_inplace\<close>: the methods \<open>detach\<close>, \<open>clone\<close> and
    \<open>requires_grad_\<close> of line 25.
\<close>

record torch =
  tensor_report :: "tensor \<Rightarrow> tensor \<Rightarrow> error option"
  torch_eq :: "pyval \<Rightarrow> pyval \<Rightarrow> error + pyval"
  tensor_bool :: "tensor \<Rightarrow> error + bool"
  tensor_sum :: "tensor \<Rightarrow> tensor"
  torch_add :: "pyval \<Rightarrow> pyval \<Rightarrow> error + tensor"
  detach :: "tensor \<Rightarrow> tensor"
  clone :: "tensor \<Rightarrow> tensor"
  requires_grad_inplace :: "tensor \<Rightarrow> bool \<Rightarrow> tensor"

section \<open>Truth values and equality of Python values\<close>

text \<open>\<open>bool(v)\<close>, as \<open>all\<close> and \<open>not\<close> compute it.\<close>

fun py_bool :: "torch \<Rightarrow> pyval \<Rightarrow> error + bool" where
  "py_bool T VNone = Inr False"
| "py_bool T (VBool b) = Inr b"
| "py_bool T (VInt i) = Inr (i \<noteq> 0)"
| "py_bool T (VFloat f) = Inr (f \<noteq> Fin 0)"
| "py_bool T (VStr s) = Inr (s \<noteq> [])"
| "py_bool T (VDevice _ _) = Inr True"
| "py_bool T (VTensor t) = tensor_bool T t"
| "py_bool T (VSeq _ xs) = Inr (xs \<noteq> [])"
| "py_bool T (VDict _ items _) = Inr (items \<noteq> [])"
| "py_bool T (VObj _ _) = Inr True"

text \<open>The numeric value of a \<open>bool\<close>, an \<open>int\<close> or a \<open>float\<close>.\<close>

fun num_val :: "pyval \<Rightarrow> pyfloat option" where
  "num_val (VBool b) = Some (Fin (if b then 1 else 0))"
| "num_val (VInt i) = Some (Fin (of_int i))"
| "num_val (VFloat f) = Some f"
| "num_val _ = None"

definition float_eq :: "pyfloat \<Rightarrow> pyfloat \<Rightarrow> bool" where
  "float_eq x y = (x \<noteq> NaN \<and> x = y)"

fun is_torch_value :: "pyval \<Rightarrow> bool" where
  "is_torch_value (VTensor _) = True"
| "is_torch_value (VDevice _ _) = True"
| "is_torch_value _ = False"

text \<open>
  \<open>a == b\<close> for \<open>a\<close> an \<open>int\<close>, \<open>float\<close>, \<open>bool\<close>, \<open>None\<close> or device (line 95). Numbers
  compare by value, \<open>None\<close> equals only \<open>None\<close>, and a value of any other class is
  taken to compare by identity; with a tensor or a device on either side the comparison
  is the library's and its result need not be a \<open>bool\<close>.
\<close>

definition py_eq :: "torch \<Rightarrow> pyval \<Rightarrow> pyval \<Rightarrow> error + pyval" where
  "py_eq T a b =
     (if is_torch_value a \<or> is_torch_value b then torch_eq T a b
      else case (num_val a, num_val b) of
             (Some x, Some y) \<Rightarrow> Inr (VBool (float_eq x y))
           | _ \<Rightarrow> Inr (VBool (a = VNone \<and> b = VNone)))"

section \<open>\<open>same\<close>\<close>

text \<open>
  \<open>all(f(x) for x in xs)\<close>: the generator is consumed from the left, an exception of
  \<open>f\<close> or of the truth test propagates, the first falsy result ends the loop with
  \<open>False\<close>. The loop of lines 78 to 82 has the same control flow.
\<close>

fun py_all :: "(pyval \<Rightarrow> error + bool) \<Rightarrow> ('x \<Rightarrow> error + pyval) \<Rightarrow> 'x list \<Rightarrow> error + pyval" where
  "py_all tb f [] = Inr (VBool True)"
| "py_all tb f (x # xs) =
     (case f x of
        Inl e \<Rightarrow> Inl e
      | Inr v \<Rightarrow>
          (case tb v of
             Inl e \<Rightarrow> Inl e
           | Inr t \<Rightarrow> if t then py_all tb f xs else Inr (VBool False)))"

lemma py_all_cong [fundef_cong]:
  "xs = ys \<Longrightarrow> tb = tb' \<Longrightarrow> (\<And>x. x \<in> set ys \<Longrightarrow> f x = g x)
   \<Longrightarrow> py_all tb f xs = py_all tb' g ys"
  by (induction ys arbitrary: xs) (auto split: sum.splits)

text \<open>The type names of lines 96 to 106.\<close>

definition same_type_names :: "string list" where
  "same_type_names =
     [''MaskedLMOutput'', ''Seq2SeqLMOutput'', ''CausalLMOutputWithCrossAttentions'',
      ''LongformerMaskedLMOutput'', ''Instances'', ''SquashedNormal'', ''Boxes'',
      ''Normal'', ''TanhTransform'']"

text \<open>
  \<open>same(a, b)\<close>, lines 68 to 110. One equation for each class of \<open>a\<close>, in the order of
  the \<open>isinstance\<close> chain: sequences, dicts, tensors, the scalars of line 94, then the
  test on the type name. A \<open>str\<close> has none of the listed type names.
\<close>

function same :: "torch \<Rightarrow> pyval \<Rightarrow> pyval \<Rightarrow> error + pyval" where
  "same T (VSeq ka xs) b =
     (case b of
        VSeq kb ys \<Rightarrow>
          if \<not> is_list_or_tuple kb then Inl AssertionError
          else if length xs \<noteq> length ys then Inr (VBool False)
          else py_all (py_bool T) (\<lambda>(ai, bi). same T ai bi) (zip xs ys)
      | _ \<Rightarrow> Inl AssertionError)"
| "same T (VDict ca items attrs) b =
     (case b of
        VDict cb items' attrs' \<Rightarrow>
          if set (map fst items) \<noteq> set (map fst items') then Inl AssertionError
          else py_all (py_bool T)
                 (\<lambda>k. case getitem items k of
                         Inl e \<Rightarrow> Inl e
                       | Inr av \<Rightarrow>
                           (case getitem items' k of
                              Inl e \<Rightarrow> Inl e
                            | Inr bv \<Rightarrow> same T av bv))
                 (map fst items)
      | _ \<Rightarrow> Inl AssertionError)"
| "same T (VTensor ta) b =
     (case b of
        VTensor tb \<Rightarrow>
          (case tensor_report T ta tb of
             Some e \<Rightarrow> Inl e
           | None \<Rightarrow> Inr (VBool True))
      | _ \<Rightarrow> Inl AssertionError)"
| "same T VNone b = py_eq T VNone b"
| "same T (VBool x) b = py_eq T (VBool x) b"
| "same T (VInt i) b = py_eq T (VInt i) b"
| "same T (VFloat f) b = py_eq T (VFloat f) b"
| "same T (VDevice d i) b = py_eq T (VDevice d i) b"
| "same T (VObj c attrs) b =
     (if class_name c \<in> set same_type_names then
        if c \<noteq> type_of b then Inl AssertionError
        else py_all (py_bool T)
               (\<lambda>key. case getattr (VObj c attrs) key of
                         Inl e \<Rightarrow> Inl e
                       | Inr av \<Rightarrow>
                           (case getattr b key of
                              Inl e \<Rightarrow> Inl e
                            | Inr bv \<Rightarrow> same T av bv))
               (map fst attrs)
      else Inl RuntimeError)"
| "same T (VStr s) b = Inl RuntimeError"
  by pat_completeness auto

lemma map_of_size_less:
  "map_of kvs k = Some v \<Longrightarrow> size v < Suc (size_list (size_prod f size) kvs)"
  by (induction kvs) (auto split: if_splits)

lemma elem_size_less:
  "x \<in> set xs \<Longrightarrow> size x < Suc (size_list size xs)"
  by (induction xs) auto

lemma zip_size_less:
  "(x, y) \<in> set (zip xs ys) \<Longrightarrow> size x < Suc (size_list size xs)"
  using elem_size_less [of x xs] by (auto dest: set_zip_leftD)

termination same
proof (relation "measure (\<lambda>(T, a, b). size a)")
  show "wf (measure (\<lambda>(T, a, b). size a))"
    by simp
next
  fix T :: torch and ka xs b kb ys and x :: "pyval \<times> pyval" and ai bi
  assume "x \<in> set (zip xs ys)" "(ai, bi) = x"
  then have "(ai, bi) \<in> set (zip xs ys)"
    by simp
  then show "((T, ai, bi), (T, VSeq ka xs, b)) \<in> measure (\<lambda>(T, a, b). size a)"
    using zip_size_less [of ai bi xs ys] by simp
next
  fix T :: torch and ca items attrs and b :: pyval and k av and bv :: pyval
  assume "getitem items k = Inr av"
  then have "map_of items k = Some av"
    by (simp add: getitem_def split: option.splits)
  then show "((T, av, bv), (T, VDict ca items attrs, b)) \<in> measure (\<lambda>(T, a, b). size a)"
    using map_of_size_less [of items k av "\<lambda>_. 0"] by simp
next
  fix T :: torch and c attrs and b :: pyval and key av and bv :: pyval
  assume "getattr (VObj c attrs) key = Inr av"
  then have "map_of attrs key = Some av"
    by (simp split: option.splits)
  then show "((T, av, bv), (T, VObj c attrs, b)) \<in> measure (\<lambda>(T, a, b). size a)"
    using map_of_size_less [of attrs key av "\<lambda>_. 0"] by simp
qed

section \<open>\<open>reduce_to_scalar_loss\<close>\<close>

text \<open>
  The list comprehension \<open>[f(x) for x in xs]\<close>: the results in order, or the first
  exception.
\<close>

fun map_results :: "('x \<Rightarrow> error + 'y) \<Rightarrow> 'x list \<Rightarrow> error + 'y list" where
  "map_results f [] = Inr []"
| "map_results f (x # xs) =
     (case f x of
        Inl e \<Rightarrow> Inl e
      | Inr y \<Rightarrow>
          (case map_results f xs of
             Inl e \<Rightarrow> Inl e
           | Inr ys \<Rightarrow> Inr (y # ys)))"

lemma map_results_cong [fundef_cong]:
  "xs = ys \<Longrightarrow> (\<And>x. x \<in> set ys \<Longrightarrow> f x = g x) \<Longrightarrow> map_results f xs = map_results g ys"
  by (induction ys arbitrary: xs) (auto split: sum.splits)

text \<open>
  \<open>x + y\<close> for the summands of \<open>sum\<close>: the start value \<open>0\<close>, an \<open>int\<close>, or a tensor.
  Addition with a tensor operand is the library's. No other operand reaches \<open>sum\<close>
  here, see \<open>reduce_to_scalar_loss_result\<close>.
\<close>

definition py_add :: "torch \<Rightarrow> pyval \<Rightarrow> pyval \<Rightarrow> error + pyval" where
  "py_add T x y =
     (case (x, y) of
        (VInt i, VInt j) \<Rightarrow> Inr (VInt (i + j))
      | (VTensor _, _) \<Rightarrow> (case torch_add T x y of Inl e \<Rightarrow> Inl e | Inr t \<Rightarrow> Inr (VTensor t))
      | (_, VTensor _) \<Rightarrow> (case torch_add T x y of Inl e \<Rightarrow> Inl e | Inr t \<Rightarrow> Inr (VTensor t))
      | _ \<Rightarrow> Inl TypeError)"

text \<open>\<open>sum(vs)\<close>: the accumulator starts at the \<open>int\<close> 0 and takes the summands from the left.\<close>

fun py_sum_from :: "torch \<Rightarrow> pyval \<Rightarrow> pyval list \<Rightarrow> error + pyval" where
  "py_sum_from T acc [] = Inr acc"
| "py_sum_from T acc (v # vs) =
     (case py_add T acc v of
        Inl e \<Rightarrow> Inl e
      | Inr acc' \<Rightarrow> py_sum_from T acc' vs)"

definition py_sum :: "torch \<Rightarrow> pyval list \<Rightarrow> error + pyval" where
  "py_sum T vs = py_sum_from T (VInt 0) vs"

text \<open>The type names of lines 51 to 55.\<close>

definition logits_type_names :: "string list" where
  "logits_type_names =
     [''MaskedLMOutput'', ''Seq2SeqLMOutput'', ''CausalLMOutputWithCrossAttentions'']"

text \<open>
  \<open>reduce_to_scalar_loss(out)\<close>, lines 45 to 61. The tests on the type name (lines 51
  and 57) come before the test for a dict (line 59), so an instance of a dict subclass
  with one of these names is reduced through its attribute.
\<close>

function reduce_to_scalar_loss :: "torch \<Rightarrow> pyval \<Rightarrow> error + pyval" where
  "reduce_to_scalar_loss T (VTensor t) = Inr (VTensor (tensor_sum T t))"
| "reduce_to_scalar_loss T (VSeq k xs) =
     (if is_tuple k then
        (case map_results (\<lambda>x. reduce_to_scalar_loss T x) xs of
           Inl e \<Rightarrow> Inl e
         | Inr vs \<Rightarrow> py_sum T vs)
      else Inl NotImplementedError)"
| "reduce_to_scalar_loss T (VDict c items attrs) =
     (if class_name c \<in> set logits_type_names then
        (case getattr (VDict c items attrs) ''logits'' of
           Inl e \<Rightarrow> Inl e
         | Inr v \<Rightarrow> reduce_to_scalar_loss T v)
      else if class_name c = ''SquashedNormal'' then
        (case getattr (VDict c items attrs) ''mean'' of
           Inl e \<Rightarrow> Inl e
         | Inr v \<Rightarrow> reduce_to_scalar_loss T v)
      else
        (case map_results (\<lambda>value. reduce_to_scalar_loss T value) (map snd items) of
           Inl e \<Rightarrow> Inl e
         | Inr vs \<Rightarrow> py_sum T vs))"
| "reduce_to_scalar_loss T (VObj c attrs) =
     (if class_name c \<in> set logits_type_names then
        (case getattr (VObj c attrs) ''logits'' of
           Inl e \<Rightarrow> Inl e
         | Inr v \<Rightarrow> reduce_to_scalar_loss T v)
      else if class_name c = ''SquashedNormal'' then
        (case getattr (VObj c attrs) ''mean'' of
           Inl e \<Rightarrow> Inl e
         | Inr v \<Rightarrow> reduce_to_scalar_loss T v)
      else Inl NotImplementedError)"
| "reduce_to_scalar_loss T VNone = Inl NotImplementedError"
| "reduce_to_scalar_loss T (VBool _) = Inl NotImplementedError"
| "reduce_to_scalar_loss T (VInt _) = Inl NotImplementedError"
| "reduce_to_scalar_loss T (VFloat _) = Inl NotImplementedError"
| "reduce_to_scalar_loss T (VStr _) = Inl NotImplementedError"
| "reduce_to_scalar_loss T (VDevice _ _) = Inl NotImplementedError"
  by pat_completeness auto

lemma value_size_less:
  "v \<in> snd ` set kvs \<Longrightarrow> size v < Suc (size_list (size_prod f size) kvs)"
  by (induction kvs) force+

termination reduce_to_scalar_loss
proof (relation "measure (\<lambda>(T, out). size out)")
  show "wf (measure (\<lambda>(T, out). size out))"
    by simp
next
  fix T :: torch and k and xs :: "pyval list" and x
  assume "x \<in> set xs"
  then show "((T, x), (T, VSeq k xs)) \<in> measure (\<lambda>(T, out). size out)"
    using elem_size_less [of x xs] by simp
next
  fix T :: torch and c items attrs v
  assume "getattr (VDict c items attrs) ''logits'' = Inr v"
  then have "map_of attrs ''logits'' = Some v"
    by (simp split: option.splits)
  then show "((T, v), (T, VDict c items attrs)) \<in> measure (\<lambda>(T, out). size out)"
    using map_of_size_less [of attrs "''logits''" v "\<lambda>_. 0"] by simp
next
  fix T :: torch and c items attrs v
  assume "getattr (VDict c items attrs) ''mean'' = Inr v"
  then have "map_of attrs ''mean'' = Some v"
    by (simp split: option.splits)
  then show "((T, v), (T, VDict c items attrs)) \<in> measure (\<lambda>(T, out). size out)"
    using map_of_size_less [of attrs "''mean''" v "\<lambda>_. 0"] by simp
next
  fix T :: torch and c and items :: "(pykey \<times> pyval) list" and attrs v
  assume "v \<in> set (map snd items)"
  then show "((T, v), (T, VDict c items attrs)) \<in> measure (\<lambda>(T, out). size out)"
    using value_size_less [of v items "\<lambda>_. 0"] by simp
next
  fix T :: torch and c attrs v
  assume "getattr (VObj c attrs) ''logits'' = Inr v"
  then have "map_of attrs ''logits'' = Some v"
    by (simp split: option.splits)
  then show "((T, v), (T, VObj c attrs)) \<in> measure (\<lambda>(T, out). size out)"
    using map_of_size_less [of attrs "''logits''" v "\<lambda>_. 0"] by simp
next
  fix T :: torch and c attrs v
  assume "getattr (VObj c attrs) ''mean'' = Inr v"
  then have "map_of attrs ''mean'' = Some v"
    by (simp split: option.splits)
  then show "((T, v), (T, VObj c attrs)) \<in> measure (\<lambda>(T, out). size out)"
    using map_of_size_less [of attrs "''mean''" v "\<lambda>_. 0"] by simp
qed

section \<open>\<open>clone_me\<close>\<close>

text \<open>
  \<open>clone_me(x)\<close>, lines 22 to 25. On a tensor the three methods are the library's. Any
  other value but \<open>None\<close> fails at \<open>x.detach()\<close>: the attribute is missing, or it is
  one of the values of this model, none of which can be called.
\<close>

fun clone_me :: "torch \<Rightarrow> pyval \<Rightarrow> error + pyval" where
  "clone_me T VNone = Inr VNone"
| "clone_me T (VTensor x) =
     Inr (VTensor (requires_grad_inplace T (clone T (detach T x)) (requires_grad x)))"
| "clone_me T x = (case getattr x ''detach'' of Inl e \<Rightarrow> Inl e | Inr _ \<Rightarrow> Inl TypeError)"

section \<open>\<open>CompileCounter\<close>\<close>

text \<open>\<open>sub in s\<close> on strings: \<open>sub\<close> occurs in \<open>s\<close> as a contiguous substring.\<close>

fun str_contains :: "string \<Rightarrow> string \<Rightarrow> bool" where
  "str_contains sub [] = (sub = [])"
| "str_contains sub (c # cs) = (prefix sub (c # cs) \<or> str_contains sub cs)"

text \<open>The part of \<open>torch.fx\<close> the counter reads: the nodes of a graph and their \<open>op\<close>.\<close>

record node =
  op :: string
  target :: string

record graph =
  nodes :: "node list"

record 'f graph_module =
  graph :: graph
  forward :: 'f

record CompileCounter =
  frame_count :: int
  op_count :: int

text \<open>\<open>__init__\<close>, lines 144 to 146.\<close>

definition CompileCounter_init :: CompileCounter where
  "CompileCounter_init = \<lparr>frame_count = 0, op_count = 0\<rparr>"

text \<open>The loop of lines 150 to 152.\<close>

fun count_calls :: "CompileCounter \<Rightarrow> node list \<Rightarrow> CompileCounter" where
  "count_calls self [] = self"
| "count_calls self (n # ns) =
     count_calls (if str_contains ''call'' (op n)
                  then self\<lparr>op_count := op_count self + 1\<rparr> else self) ns"

text \<open>\<open>__call__\<close>, lines 148 to 153: the updated counter and the returned value.\<close>

definition CompileCounter_call ::
  "CompileCounter \<Rightarrow> 'f graph_module \<Rightarrow> CompileCounter \<times> 'f" where
  "CompileCounter_call self gm =
     (let self1 = self\<lparr>frame_count := frame_count self + 1\<rparr>;
          self2 = count_calls self1 (nodes (graph gm))
      in (self2, forward gm))"

text \<open>The counter after a series of calls, one for each graph module of the list.\<close>

fun CompileCounter_calls :: "CompileCounter \<Rightarrow> 'f graph_module list \<Rightarrow> CompileCounter" where
  "CompileCounter_calls self [] = self"
| "CompileCounter_calls self (gm # gms) =
     CompileCounter_calls (fst (CompileCounter_call self gm)) gms"

section \<open>\<open>format_speedup\<close>\<close>

text \<open>\<open>x < y\<close> on floats: false whenever a NaN is compared.\<close>

fun float_less :: "pyfloat \<Rightarrow> pyfloat \<Rightarrow> bool" where
  "float_less NaN _ = False"
| "float_less _ NaN = False"
| "float_less (Fin x) (Fin y) = (x < y)"
| "float_less _ NegInf = False"
| "float_less PosInf _ = False"
| "float_less NegInf _ = True"
| "float_less (Fin _) PosInf = True"

definition digit_char :: "nat \<Rightarrow> char" where
  "digit_char d = ''0123456789'' ! (d mod 10)"

fun show_nat :: "nat \<Rightarrow> string" where
  "show_nat n = (if n < 10 then [digit_char n] else show_nat (n div 10) @ [digit_char (n mod 10)])"

declare show_nat.simps [simp del]

text \<open>The last \<open>d\<close> decimal digits of \<open>n\<close>, with leading zeros.\<close>

fun frac_digits :: "nat \<Rightarrow> nat \<Rightarrow> string" where
  "frac_digits 0 n = []"
| "frac_digits (Suc d) n = frac_digits d (n div 10) @ [digit_char (n mod 10)]"

definition round_half_even :: "rat \<Rightarrow> int" where
  "round_half_even r =
     (let f = \<lfloor>r\<rfloor>; d = r - of_int f
      in if d < 1 / 2 then f else if 1 / 2 < d then f + 1 else if even f then f else f + 1)"

text \<open>
  The format specification \<open>.df\<close> of an f-string on a float: the exact value of the
  float rounded to \<open>d\<close> decimals, ties to even, with the sign of the float.
\<close>

fun format_f :: "nat \<Rightarrow> pyfloat \<Rightarrow> string" where
  "format_f d NaN = ''nan''"
| "format_f d PosInf = ''inf''"
| "format_f d NegInf = ''-inf''"
| "format_f d (Fin q) =
     (let n = nat (round_half_even (\<bar>q\<bar> * 10 ^ d))
      in (if q < 0 then ''-'' else [])
         @ show_nat (n div 10 ^ d)
         @ (if d = 0 then [] else ''.'' @ frac_digits d (n mod 10 ^ d)))"

text \<open>The defaults of line 212; the float written \<open>0.1\<close> is not one tenth.\<close>

definition default_is_correct :: bool where
  "default_is_correct = True"

definition default_pvalue_threshold :: pyfloat where
  "default_pvalue_threshold = Fin (3602879701896397 / 36028797018963968)"

text \<open>\<open>format_speedup\<close>, lines 212 to 217.\<close>

definition format_speedup :: "pyfloat \<Rightarrow> pyfloat \<Rightarrow> bool \<Rightarrow> pyfloat \<Rightarrow> string" where
  "format_speedup speedup pvalue is_correct pvalue_threshold =
     (if \<not> is_correct then ''ERROR''
      else if float_less pvalue_threshold pvalue then format_f 3 speedup @ ''x SAME''
      else format_f 3 speedup @ ''x p='' @ format_f 2 pvalue)"

section \<open>\<open>debug_insert_nops\<close>\<close>

text \<open>
  The functions imported from \<open>bytecode_transformation\<close> (lines 12 to 15) are parameters:
  \<open>debug_checks\<close> returns the exception it raises, if any; \<open>transform_code_object\<close>
  takes the code object and the transformation of its instructions and code options.
\<close>

record ('code, 'instr, 'opts) bytecode_transformation =
  create_instruction :: "string \<Rightarrow> 'instr"
  debug_checks :: "'code \<Rightarrow> error option"
  is_generator :: "'code \<Rightarrow> bool"
  transform_code_object ::
    "'code \<Rightarrow> ('instr list \<Rightarrow> 'opts \<Rightarrow> 'instr list \<times> 'opts) \<Rightarrow> error + 'code"

record 'code frame =
  f_code :: 'code

datatype 'code GuardedCode = GuardedCode 'code

text \<open>
  \<open>insert_nops\<close>, lines 130 to 132: the list of instructions is changed in place, the
  code options are left as they are.
\<close>

definition insert_nops ::
  "('code, 'instr, 'opts) bytecode_transformation \<Rightarrow> 'instr list \<Rightarrow> 'opts \<Rightarrow> 'instr list \<times> 'opts" where
  "insert_nops B instructions code_options =
     (let instructions1 = create_instruction B ''NOP'' # instructions;
          instructions2 = create_instruction B ''NOP'' # instructions1
      in (instructions2, code_options))"

text \<open>\<open>debug_insert_nops(frame, cache_size)\<close>, lines 127 to 140.\<close>

definition debug_insert_nops ::
  "('code, 'instr, 'opts) bytecode_transformation \<Rightarrow> 'code frame \<Rightarrow> nat
   \<Rightarrow> error + 'code GuardedCode option" where
  "debug_insert_nops B frame cache_size =
     (if is_generator B (f_code frame) then Inr None
      else case debug_checks B (f_code frame) of
             Some e \<Rightarrow> Inl e
           | None \<Rightarrow>
               (case transform_code_object B (f_code frame) (insert_nops B) of
                  Inl e \<Rightarrow> Inl e
                | Inr code \<Rightarrow> Inr (Some (GuardedCode code))))"

section \<open>An instance of the library with exact arithmetic\<close>

text \<open>
  The properties below hold for every implementation of the library's operations. To
  evaluate \<open>same\<close> and \<open>reduce_to_scalar_loss\<close> on examples, \<open>exact_torch\<close> computes on
  the exact values of the elements: the diagnostics of \<open>same\<close> complete on tensors of
  equal shape, a sum is the sum of the elements, a comparison of a number with a tensor
  is elementwise, and only a tensor of one element has a truth value.
\<close>

fun float_add :: "pyfloat \<Rightarrow> pyfloat \<Rightarrow> pyfloat" where
  "float_add NaN _ = NaN"
| "float_add _ NaN = NaN"
| "float_add (Fin x) (Fin y) = Fin (x + y)"
| "float_add PosInf NegInf = NaN"
| "float_add NegInf PosInf = NaN"
| "float_add PosInf _ = PosInf"
| "float_add _ PosInf = PosInf"
| "float_add NegInf _ = NegInf"
| "float_add _ NegInf = NegInf"

definition scalar_tensor :: "pyfloat \<Rightarrow> tensor" where
  "scalar_tensor x = \<lparr>shape = [], elems = [x], requires_grad = False\<rparr>"

text \<open>A tensor of one dimension holding the given finite values.\<close>

definition vec :: "rat list \<Rightarrow> tensor" where
  "vec xs = \<lparr>shape = [length xs], elems = map Fin xs, requires_grad = False\<rparr>"

fun operand_value :: "pyval \<Rightarrow> pyfloat option" where
  "operand_value (VTensor t) = (case elems t of [x] \<Rightarrow> Some x | _ \<Rightarrow> None)"
| "operand_value v = num_val v"

definition exact_torch :: torch where
  "exact_torch =
     \<lparr>tensor_report = (\<lambda>a b. if shape a = shape b then None else Some RuntimeError),
      torch_eq =
        (\<lambda>a b. case (a, b) of
                  (VDevice d i, VDevice d' i') \<Rightarrow> Inr (VBool (d = d' \<and> i = i'))
                | (_, VTensor t) \<Rightarrow>
                    (case num_val a of
                       Some x \<Rightarrow>
                         Inr (VTensor (t\<lparr>elems := map (\<lambda>e. Fin (if float_eq e x then 1 else 0)) (elems t),
                                         requires_grad := False\<rparr>))
                     | None \<Rightarrow> Inr (VBool False))
                | _ \<Rightarrow> Inr (VBool False)),
      tensor_bool = (\<lambda>t. case elems t of [x] \<Rightarrow> Inr (x \<noteq> Fin 0) | _ \<Rightarrow> Inl RuntimeError),
      tensor_sum = (\<lambda>t. scalar_tensor (foldl float_add (Fin 0) (elems t))),
      torch_add =
        (\<lambda>x y. case (operand_value x, operand_value y) of
                  (Some a, Some b) \<Rightarrow> Inr (scalar_tensor (float_add a b))
                | _ \<Rightarrow> Inl RuntimeError),
      detach = (\<lambda>t. t\<lparr>requires_grad := False\<rparr>),
      clone = (\<lambda>t. t),
      requires_grad_inplace = (\<lambda>t r. t\<lparr>requires_grad := r\<rparr>)\<rparr>"

section \<open>A sample of \<open>bytecode_transformation\<close>\<close>

text \<open>
  To evaluate \<open>debug_insert_nops\<close> on examples: a code object with its flags and the
  names of its instructions, a generator being a code object with the flag \<open>0x20\<close>
  set, and a transformation that checks nothing and stores the instructions it is given.
\<close>

record code_object =
  co_flags :: nat
  co_instructions :: "string list"

definition sample_bytecode :: "(code_object, string, unit) bytecode_transformation" where
  "sample_bytecode =
     \<lparr>create_instruction = (\<lambda>name. name),
      debug_checks = (\<lambda>code. None),
      is_generator = (\<lambda>code. odd (co_flags code div 32)),
      transform_code_object =
        (\<lambda>code f. Inr (code\<lparr>co_instructions := fst (f (co_instructions code) ())\<rparr>))\<rparr>"

definition generator_frame :: "code_object frame" where
  "generator_frame = \<lparr>f_code = \<lparr>co_flags = 32, co_instructions = [''YIELD_VALUE'']\<rparr>\<rparr>"

definition function_frame :: "code_object frame" where
  "function_frame = \<lparr>f_code = \<lparr>co_flags = 67, co_instructions = [''RETURN_VALUE'']\<rparr>\<rparr>"

section \<open>Notions used to state the properties\<close>

text \<open>
  \<open>same(a, b)\<close> holds: the call returns and its result is true where \<open>all\<close> and
  \<open>not\<close> test it.
\<close>

definition same_holds :: "torch \<Rightarrow> pyval \<Rightarrow> pyval \<Rightarrow> bool" where
  "same_holds T a b = (case same T a b of Inl e \<Rightarrow> False | Inr v \<Rightarrow> py_bool T v = Inr True)"

text \<open>
  The sum of \<open>reduce_to_scalar_loss\<close> applied to each value of a list, as \<open>sum\<close>
  computes it: the reductions first, from the left, then their sum.
\<close>

definition sum_of_reduced :: "torch \<Rightarrow> pyval list \<Rightarrow> error + pyval" where
  "sum_of_reduced T vs =
     (case map_results (reduce_to_scalar_loss T) vs of
        Inl e \<Rightarrow> Inl e
      | Inr rs \<Rightarrow> py_sum T rs)"

fun is_int_or_tensor :: "pyval \<Rightarrow> bool" where
  "is_int_or_tensor (VInt _) = True"
| "is_int_or_tensor (VTensor _) = True"
| "is_int_or_tensor _ = False"

text \<open>
  An output of a masked language model: an instance of a subclass of \<open>dict\<close> named
  \<open>MaskedLMOutput\<close>, whose fields \<open>loss\<close> and \<open>logits\<close> are both items and attributes.
\<close>

definition masked_lm_output :: pyval where
  "masked_lm_output =
     VDict (PyClass ''transformers.modeling_outputs'' ''MaskedLMOutput'')
       [(KStr ''loss'', VTensor (vec [1])), (KStr ''logits'', VTensor (vec [2, 3]))]
       [(''loss'', VTensor (vec [1])), (''logits'', VTensor (vec [2, 3]))]"

section \<open>Properties of \<open>same\<close>\<close>

lemma py_all_True_iff:
  "py_all tb f xs = Inr (VBool True) \<longleftrightarrow> (\<forall>x\<in>set xs. \<exists>v. f x = Inr v \<and> tb v = Inr True)"
  by (induction xs) (auto split: sum.splits)

lemma same_holds_iff:
  "same_holds T a b \<longleftrightarrow> (\<exists>v. same T a b = Inr v \<and> py_bool T v = Inr True)"
  by (cases "same T a b") (simp_all add: same_holds_def)

text \<open>
  C1. The claim: on two tensors \<open>same\<close> compares the values up to a tolerance, and
  returns \<open>False\<close> for some pair of tensors that differ beyond it. The code does not:
  after printing its diagnostics the tensor branch returns \<open>True\<close> (line 93, marked
  as temporary; the comparison with \<open>allclose\<close> of line 85 is commented out). So on two
  tensors \<open>same\<close> never returns \<open>False\<close>, whatever the library computes, and on the
  tensors \<open>[1.0]\<close> and \<open>[2.0]\<close> it returns \<open>True\<close>.
\<close>

theorem same_tensor_never_False:
  "same T (VTensor ta) (VTensor tb) \<noteq> Inr (VBool False)
   \<and> same exact_torch (VTensor (vec [1])) (VTensor (vec [2])) = Inr (VBool True)"
  by (simp add: exact_torch_def vec_def split: option.splits)

text \<open>
  C2. For \<open>a\<close> a list, tuple, \<open>ParameterList\<close> or \<open>Size\<close> and \<open>b\<close> a list or tuple,
  \<open>same(a, b)\<close> returns \<open>True\<close> if and only if \<open>a\<close> and \<open>b\<close> have the same length and
  \<open>same\<close> holds for every pair of corresponding elements.
\<close>

theorem same_sequence:
  assumes "is_list_or_tuple kb"
  shows "same T (VSeq ka xs) (VSeq kb ys) = Inr (VBool True)
         \<longleftrightarrow> length xs = length ys \<and> (\<forall>(ai, bi)\<in>set (zip xs ys). same_holds T ai bi)"
proof (cases "length xs = length ys")
  case True
  have "py_all (py_bool T) (\<lambda>(ai, bi). same T ai bi) (zip xs ys) = Inr (VBool True)
        \<longleftrightarrow> (\<forall>(ai, bi)\<in>set (zip xs ys). same_holds T ai bi)"
    unfolding py_all_True_iff same_holds_iff by (simp add: case_prod_unfold)
  with True assms show ?thesis
    by simp
next
  case False
  with assms show ?thesis
    by simp
qed

theorem same_sequence_witness:
  "is_list_or_tuple PyTuple
   \<and> same exact_torch (VSeq PyList [VInt 1, VNone]) (VSeq PyTuple [VBool True, VNone]) = Inr (VBool True)
   \<and> same_holds exact_torch (VInt 1) (VBool True) \<and> same_holds exact_torch VNone VNone"
  using same_sequence [of PyTuple exact_torch PyList "[VInt 1, VNone]" "[VBool True, VNone]"]
  by (simp add: same_holds_def py_eq_def float_eq_def)

lemma lookup_both:
  assumes "set (map fst items) = set (map fst items')" "k \<in> set (map fst items)"
  shows "\<exists>av bv. map_of items k = Some av \<and> map_of items' k = Some bv"
proof -
  from assms have "k \<in> dom (map_of items)" "k \<in> dom (map_of items')"
    by (simp_all add: dom_map_of_conv_image_fst)
  then show ?thesis
    by auto
qed

text \<open>
  C5. For two dicts with the same set of keys, \<open>same(a, b)\<close> returns \<open>True\<close> if and
  only if \<open>same(a[k], b[k])\<close> holds for every key \<open>k\<close>. When the sets of keys differ,
  \<open>same\<close> does not return \<open>False\<close>: the assertion of line 75 fails.
\<close>

theorem same_dict:
  "(set (map fst items) = set (map fst items') \<longrightarrow>
      (same T (VDict ca items attrs) (VDict cb items' attrs') = Inr (VBool True)
       \<longleftrightarrow> (\<forall>k\<in>set (map fst items). \<exists>av bv. map_of items k = Some av \<and> map_of items' k = Some bv
                \<and> same_holds T av bv)))
   \<and> (set (map fst items) \<noteq> set (map fst items') \<longrightarrow>
      same T (VDict ca items attrs) (VDict cb items' attrs') = Inl AssertionError)"
proof (intro conjI impI)
  assume keys: "set (map fst items) = set (map fst items')"
  let ?f = "\<lambda>k. case getitem items k of
                  Inl e \<Rightarrow> Inl e
                | Inr av \<Rightarrow> (case getitem items' k of Inl e \<Rightarrow> Inl e | Inr bv \<Rightarrow> same T av bv)"
  have step: "(\<exists>v. ?f k = Inr v \<and> py_bool T v = Inr True)
              \<longleftrightarrow> (\<exists>av bv. map_of items k = Some av \<and> map_of items' k = Some bv \<and> same_holds T av bv)"
    if "k \<in> set (map fst items)" for k
  proof -
    from lookup_both [OF keys that] obtain av bv
      where "map_of items k = Some av" "map_of items' k = Some bv"
      by blast
    then show ?thesis
      by (simp add: getitem_def same_holds_iff)
  qed
  have "same T (VDict ca items attrs) (VDict cb items' attrs') = py_all (py_bool T) ?f (map fst items)"
    using keys by simp
  also have "\<dots> = Inr (VBool True) \<longleftrightarrow> (\<forall>k\<in>set (map fst items). \<exists>v. ?f k = Inr v \<and> py_bool T v = Inr True)"
    by (rule py_all_True_iff)
  also have "\<dots> \<longleftrightarrow> (\<forall>k\<in>set (map fst items). \<exists>av bv. map_of items k = Some av
                         \<and> map_of items' k = Some bv \<and> same_holds T av bv)"
    using step by blast
  finally show "same T (VDict ca items attrs) (VDict cb items' attrs') = Inr (VBool True)
       \<longleftrightarrow> (\<forall>k\<in>set (map fst items). \<exists>av bv. map_of items k = Some av \<and> map_of items' k = Some bv
                \<and> same_holds T av bv)" .
next
  assume "set (map fst items) \<noteq> set (map fst items')"
  then show "same T (VDict ca items attrs) (VDict cb items' attrs') = Inl AssertionError"
    by simp
qed

theorem same_dict_witness:
  "set (map fst [(KStr ''a'', VInt 1)]) = set (map fst [(KStr ''a'', VFloat (Fin 1))])
   \<and> same exact_torch (VDict dict_class [(KStr ''a'', VInt 1)] [])
        (VDict dict_class [(KStr ''a'', VFloat (Fin 1))] []) = Inr (VBool True)
   \<and> same_holds exact_torch (VInt 1) (VFloat (Fin 1))
   \<and> set (map fst [(KStr ''a'', VInt 1)]) \<noteq> set (map fst [(KStr ''b'', VInt 1)])
   \<and> same exact_torch (VDict dict_class [(KStr ''a'', VInt 1)] [])
        (VDict dict_class [(KStr ''b'', VInt 1)] []) = Inl AssertionError"
  using same_dict [of "[(KStr ''a'', VInt 1)]" "[(KStr ''a'', VFloat (Fin 1))]"
                      exact_torch dict_class "[]" dict_class "[]"]
        same_dict [of "[(KStr ''a'', VInt 1)]" "[(KStr ''b'', VInt 1)]"
                      exact_torch dict_class "[]" dict_class "[]"]
  by (simp add: same_holds_def py_eq_def float_eq_def getitem_def)

lemma same_rel_size:
  "same_rel x y \<Longrightarrow> size (fst (snd x)) < size (fst (snd y))"
proof (induction rule: same_rel.induct)
  case (1 T ka xs b kb ys x ai bi)
  then have "(ai, bi) \<in> set (zip xs ys)"
    by simp
  then show ?case
    using zip_size_less [of ai bi xs ys] by simp
next
  case (2 T ca items attrs b cb items' attrs' k av bv)
  then have "map_of items k = Some av"
    by (simp add: getitem_def split: option.splits)
  then show ?case
    using map_of_size_less [of items k av "\<lambda>_. 0"] by simp
next
  case (3 T c attrs b key av bv)
  then have "map_of attrs key = Some av"
    by (simp split: option.splits)
  then show ?case
    using map_of_size_less [of attrs key av "\<lambda>_. 0"] by simp
qed

lemma same_rel_wf: "wfp same_rel"
  by (rule wfp_if_convertible_to_nat [of same_rel "\<lambda>p. size (fst (snd p))"])
     (rule same_rel_size)

text \<open>
  C6. \<open>same\<close> terminates on every pair of finite values. \<open>same_rel\<close> relates the
  arguments of each recursive call to the arguments of the call that makes it; a call
  is made only on an element, a dict value or an attribute value of \<open>a\<close>, which is
  smaller than \<open>a\<close> (\<open>same_rel_size\<close>). So every argument is in the domain \<open>same_dom\<close> on
  which the recursion ends, and \<open>same\<close> has a result there.
\<close>

theorem same_terminates: "same_dom (T, a, b) \<and> (\<exists>r. same T a b = r)"
  using same_rel_wf by (simp add: wfp_iff_accp)

section \<open>Properties of \<open>clone_me\<close>\<close>

text \<open>
  C7. \<open>clone_me(None)\<close> returns \<open>None\<close>: nothing is detached or cloned.
\<close>

theorem clone_me_None: "clone_me T VNone = Inr VNone"
  by simp

section \<open>Properties of \<open>CompileCounter\<close>\<close>

lemma str_contains_sublist: "str_contains sub s \<longleftrightarrow> sublist sub s"
  by (induction s) (auto simp: sublist_Cons_right)

lemma count_calls_frame_count: "frame_count (count_calls self ns) = frame_count self"
  by (induction ns arbitrary: self) auto

lemma count_calls_op_count:
  "op_count (count_calls self ns)
   = op_count self + int (length (filter (\<lambda>n. str_contains ''call'' (op n)) ns))"
  by (induction ns arbitrary: self) auto

lemma CompileCounter_call_frame_count:
  "frame_count (fst (CompileCounter_call self gm)) = frame_count self + 1"
  by (simp add: CompileCounter_call_def Let_def count_calls_frame_count)

lemma CompileCounter_calls_frame_count:
  "frame_count (CompileCounter_calls self gms) = frame_count self + int (length gms)"
  by (induction gms arbitrary: self) (auto simp: CompileCounter_call_frame_count)

text \<open>
  C3. A new \<open>CompileCounter\<close> has \<open>frame_count = 0\<close> and \<open>op_count = 0\<close>. Every call
  adds 1 to \<open>frame_count\<close>, adds to \<open>op_count\<close> the number of nodes of the graph whose
  \<open>op\<close> has \<open>call\<close> as a substring, and returns the \<open>forward\<close> of the module. After \<open>n\<close>
  calls of a new counter \<open>frame_count\<close> is \<open>n\<close>.
\<close>

theorem CompileCounter_counts:
  "frame_count CompileCounter_init = 0 \<and> op_count CompileCounter_init = 0
   \<and> frame_count (fst (CompileCounter_call self gm)) = frame_count self + 1
   \<and> op_count (fst (CompileCounter_call self gm))
       = op_count self + int (length (filter (\<lambda>n. sublist ''call'' (op n)) (nodes (graph gm))))
   \<and> snd (CompileCounter_call self gm) = forward gm
   \<and> frame_count (CompileCounter_calls CompileCounter_init gms) = int (length gms)"
  by (simp add: CompileCounter_calls_frame_count CompileCounter_call_frame_count
        CompileCounter_init_def CompileCounter_call_def Let_def
        count_calls_op_count count_calls_frame_count str_contains_sublist)

section \<open>Properties of \<open>debug_insert_nops\<close>\<close>

text \<open>
  C9. \<open>debug_insert_nops\<close> returns \<open>None\<close> for every frame whose code object is a
  generator. It returns a \<open>GuardedCode\<close> only for a frame that is not a generator, and
  the \<open>GuardedCode\<close> then wraps the code object that \<open>transform_code_object\<close> returned
  for \<open>insert_nops\<close>; it does so whenever the checks and the transformation succeed.
\<close>

theorem debug_insert_nops_generator:
  "(is_generator B (f_code frame) \<longrightarrow> debug_insert_nops B frame cache_size = Inr None)
   \<and> (\<forall>g. debug_insert_nops B frame cache_size = Inr (Some g) \<longrightarrow>
          \<not> is_generator B (f_code frame)
          \<and> (\<exists>code. transform_code_object B (f_code frame) (insert_nops B) = Inr code
                     \<and> g = GuardedCode code))
   \<and> (\<not> is_generator B (f_code frame) \<longrightarrow> debug_checks B (f_code frame) = None \<longrightarrow>
        (\<forall>code. transform_code_object B (f_code frame) (insert_nops B) = Inr code \<longrightarrow>
           debug_insert_nops B frame cache_size = Inr (Some (GuardedCode code))))"
  by (auto simp: debug_insert_nops_def split: option.splits sum.splits if_splits)

theorem debug_insert_nops_generator_witness:
  "is_generator sample_bytecode (f_code generator_frame)
   \<and> debug_insert_nops sample_bytecode generator_frame 0 = Inr None
   \<and> \<not> is_generator sample_bytecode (f_code function_frame)
   \<and> debug_insert_nops sample_bytecode function_frame 0
       = Inr (Some (GuardedCode \<lparr>co_flags = 67, co_instructions = [''NOP'', ''NOP'', ''RETURN_VALUE'']\<rparr>))"
proof -
  have gen: "is_generator sample_bytecode (f_code generator_frame)"
    by (simp add: sample_bytecode_def generator_frame_def)
  have fn: "\<not> is_generator sample_bytecode (f_code function_frame)"
    by (simp add: sample_bytecode_def function_frame_def)
  have checks: "debug_checks sample_bytecode (f_code function_frame) = None"
    by (simp add: sample_bytecode_def)
  have transformed:
    "transform_code_object sample_bytecode (f_code function_frame) (insert_nops sample_bytecode)
     = Inr \<lparr>co_flags = 67, co_instructions = [''NOP'', ''NOP'', ''RETURN_VALUE'']\<rparr>"
    by (simp add: sample_bytecode_def function_frame_def insert_nops_def)
  from gen debug_insert_nops_generator [of sample_bytecode generator_frame 0]
  have "debug_insert_nops sample_bytecode generator_frame 0 = Inr None"
    by blast
  moreover
  from fn checks transformed debug_insert_nops_generator [of sample_bytecode function_frame 0]
  have "debug_insert_nops sample_bytecode function_frame 0
        = Inr (Some (GuardedCode \<lparr>co_flags = 67, co_instructions = [''NOP'', ''NOP'', ''RETURN_VALUE'']\<rparr>))"
    by blast
  ultimately show ?thesis
    using gen fn by blast
qed

section \<open>Properties of \<open>reduce_to_scalar_loss\<close>\<close>

lemma py_add_result: "py_add T x y = Inr v \<Longrightarrow> is_int_or_tensor v"
  by (auto simp: py_add_def split: pyval.splits sum.splits)

lemma py_sum_from_result:
  "is_int_or_tensor acc \<Longrightarrow> py_sum_from T acc vs = Inr v \<Longrightarrow> is_int_or_tensor v"
proof (induction vs arbitrary: acc)
  case Nil
  then show ?case by simp
next
  case (Cons x xs)
  then show ?case
    by (auto split: sum.splits dest: py_add_result)
qed

lemma py_sum_result: "py_sum T vs = Inr v \<Longrightarrow> is_int_or_tensor v"
  using py_sum_from_result [of "VInt 0" T vs v] by (simp add: py_sum_def)

text \<open>Every result of \<open>reduce_to_scalar_loss\<close> is an \<open>int\<close> or a tensor.\<close>

lemma reduce_to_scalar_loss_result:
  "reduce_to_scalar_loss T out = Inr v \<Longrightarrow> is_int_or_tensor v"
proof (induction T out arbitrary: v rule: reduce_to_scalar_loss.induct)
  case (1 T t)
  then show ?case by auto
next
  case (2 T k xs)
  then show ?case
    by (auto split: if_splits sum.splits dest: py_sum_result)
next
  case (3 T c items attrs)
  then show ?case
    by (auto split: if_splits sum.splits option.splits dest: py_sum_result)
next
  case (4 T c attrs)
  then show ?case
    by (auto split: if_splits sum.splits option.splits)
qed simp_all

text \<open>
  C4, as claimed: for every dict \<open>reduce_to_scalar_loss\<close> returns the sum of the
  reductions of its values. This fails for an instance of a dict subclass whose type
  name is one of those tested in lines 51 to 57, since these tests come before the test
  for a dict: \<open>masked_lm_output\<close> is reduced to the sum of its \<open>logits\<close>, 5, and not to
  the sum over its two values, 6.
\<close>

theorem reduce_to_scalar_loss_dict_counterexample:
  "reduce_to_scalar_loss exact_torch masked_lm_output = Inr (VTensor (scalar_tensor (Fin 5)))
   \<and> sum_of_reduced exact_torch [VTensor (vec [1]), VTensor (vec [2, 3])]
       = Inr (VTensor (scalar_tensor (Fin 6)))
   \<and> reduce_to_scalar_loss exact_torch masked_lm_output
       \<noteq> sum_of_reduced exact_torch [VTensor (vec [1]), VTensor (vec [2, 3])]"
proof -
  have a: "reduce_to_scalar_loss exact_torch masked_lm_output = Inr (VTensor (scalar_tensor (Fin 5)))"
    by (simp add: masked_lm_output_def logits_type_names_def exact_torch_def vec_def)
  have b: "sum_of_reduced exact_torch [VTensor (vec [1]), VTensor (vec [2, 3])]
           = Inr (VTensor (scalar_tensor (Fin 6)))"
    by (simp add: sum_of_reduced_def py_sum_def py_add_def exact_torch_def vec_def scalar_tensor_def)
  have "scalar_tensor (Fin 5) \<noteq> scalar_tensor (Fin 6)"
    by (simp add: scalar_tensor_def)
  with a b show ?thesis
    by simp
qed

text \<open>
  C4, amended. For a tensor \<open>reduce_to_scalar_loss\<close> returns the sum that the library
  computes of its elements; for a tuple, the sum of the reductions of its elements; for
  a dict whose type name is none of \<open>MaskedLMOutput\<close>, \<open>Seq2SeqLMOutput\<close>,
  \<open>CausalLMOutputWithCrossAttentions\<close> and \<open>SquashedNormal\<close>, the sum of the reductions
  of its values. A dict with one of the first three names is reduced through its
  attribute \<open>logits\<close>.
\<close>

theorem reduce_to_scalar_loss_cases:
  "reduce_to_scalar_loss T (VTensor t) = Inr (VTensor (tensor_sum T t))
   \<and> (is_tuple k \<longrightarrow> reduce_to_scalar_loss T (VSeq k xs) = sum_of_reduced T xs)
   \<and> (class_name c \<notin> set logits_type_names \<and> class_name c \<noteq> ''SquashedNormal'' \<longrightarrow>
        reduce_to_scalar_loss T (VDict c items attrs) = sum_of_reduced T (map snd items))
   \<and> (class_name c \<in> set logits_type_names \<longrightarrow>
        reduce_to_scalar_loss T (VDict c items attrs)
        = (case getattr (VDict c items attrs) ''logits'' of
             Inl e \<Rightarrow> Inl e
           | Inr v \<Rightarrow> reduce_to_scalar_loss T v))"
  by (simp add: sum_of_reduced_def)

theorem reduce_to_scalar_loss_cases_witness:
  "is_tuple PyTuple
   \<and> reduce_to_scalar_loss exact_torch (VSeq PyTuple [VTensor (vec [1]), VTensor (vec [2, 3])])
       = Inr (VTensor (scalar_tensor (Fin 6)))
   \<and> class_name dict_class \<notin> set logits_type_names \<and> class_name dict_class \<noteq> ''SquashedNormal''
   \<and> reduce_to_scalar_loss exact_torch
        (VDict dict_class [(KStr ''loss'', VTensor (vec [1])), (KStr ''logits'', VTensor (vec [2, 3]))] [])
       = Inr (VTensor (scalar_tensor (Fin 6)))"
proof -
  have b: "sum_of_reduced exact_torch [VTensor (vec [1]), VTensor (vec [2, 3])]
           = Inr (VTensor (scalar_tensor (Fin 6)))"
    by (simp add: sum_of_reduced_def py_sum_def py_add_def exact_torch_def vec_def scalar_tensor_def)
  have names: "class_name dict_class \<notin> set logits_type_names \<and> class_name dict_class \<noteq> ''SquashedNormal''"
    by (simp add: dict_class_def logits_type_names_def)
  have tuple: "is_tuple PyTuple"
    by simp
  note cases = reduce_to_scalar_loss_cases
    [of exact_torch "vec [1]" PyTuple "[VTensor (vec [1]), VTensor (vec [2, 3])]" dict_class
        "[(KStr ''loss'', VTensor (vec [1])), (KStr ''logits'', VTensor (vec [2, 3]))]" "[]"]
  have "reduce_to_scalar_loss exact_torch (VSeq PyTuple [VTensor (vec [1]), VTensor (vec [2, 3])])
        = sum_of_reduced exact_torch [VTensor (vec [1]), VTensor (vec [2, 3])]"
    using tuple cases by blast
  moreover
  have "reduce_to_scalar_loss exact_torch
          (VDict dict_class [(KStr ''loss'', VTensor (vec [1])), (KStr ''logits'', VTensor (vec [2, 3]))] [])
        = sum_of_reduced exact_torch
            (map snd [(KStr ''loss'', VTensor (vec [1])), (KStr ''logits'', VTensor (vec [2, 3]))])"
    using names cases by blast
  ultimately show ?thesis
    using b names by simp
qed

section \<open>Properties of \<open>format_speedup\<close>\<close>

lemma digit_char_digit: "digit_char d \<in> set ''0123456789''"
  unfolding digit_char_def by (rule nth_mem) simp

lemma show_nat_last: "show_nat n \<noteq> [] \<and> last (show_nat n) \<in> set ''0123456789''"
  using digit_char_digit [of n] digit_char_digit [of "n mod 10"]
  by (subst (1 2) show_nat.simps) auto

lemma frac_digits_last:
  "0 < d \<Longrightarrow> frac_digits d n \<noteq> [] \<and> last (frac_digits d n) \<in> set ''0123456789''"
  using digit_char_digit [of "n mod 10"] by (cases d) auto

text \<open>A formatted float ends with a digit, or with the last letter of \<open>nan\<close> or \<open>inf\<close>.\<close>

lemma format_f_last:
  "format_f d x \<noteq> [] \<and> last (format_f d x) \<in> set ''0123456789nf''"
proof (cases x)
  case (Fin q)
  show ?thesis
  proof (cases "d = 0")
    case True
    with Fin show_nat_last [of "nat (round_half_even \<bar>q\<bar>)"] show ?thesis
      by (auto simp: Let_def)
  next
    case False
    with Fin frac_digits_last [of d "nat (round_half_even (\<bar>q\<bar> * 10 ^ d)) mod 10 ^ d"]
    show ?thesis
      by (auto simp: Let_def)
  qed
qed simp_all

lemma not_suffix_SAME:
  assumes "s \<noteq> []" "last s \<noteq> CHR ''E''"
  shows "\<not> suffix ''SAME'' (pre @ s)"
proof
  assume "suffix ''SAME'' (pre @ s)"
  then obtain zs where "pre @ s = zs @ ''SAME''"
    by (auto simp: suffix_def)
  then have "last (pre @ s) = CHR ''E''"
    by simp
  with assms show False
    by simp
qed

text \<open>
  C8. \<open>format_speedup\<close> returns \<open>ERROR\<close> whenever \<open>is_correct\<close> is false, whatever the
  other arguments. When \<open>is_correct\<close> is true, the result ends in \<open>SAME\<close> exactly when
  \<open>pvalue\<close> is greater than \<open>pvalue_threshold\<close>; otherwise it ends in \<open>p=\<close> followed by
  the \<open>pvalue\<close> with two decimals.
\<close>

theorem format_speedup_cases:
  "(\<not> is_correct \<longrightarrow> format_speedup speedup pvalue is_correct pvalue_threshold = ''ERROR'')
   \<and> (is_correct \<longrightarrow>
        (suffix ''SAME'' (format_speedup speedup pvalue is_correct pvalue_threshold)
           \<longleftrightarrow> float_less pvalue_threshold pvalue)
        \<and> (\<not> float_less pvalue_threshold pvalue \<longrightarrow>
             suffix (''p='' @ format_f 2 pvalue)
               (format_speedup speedup pvalue is_correct pvalue_threshold)))"
proof -
  have "last (format_f 2 pvalue) \<noteq> CHR ''E''" "format_f 2 pvalue \<noteq> []"
    using format_f_last [of 2 pvalue] by auto
  then have "\<not> suffix ''SAME'' ((format_f 3 speedup @ ''x p='') @ format_f 2 pvalue)"
    using not_suffix_SAME by blast
  moreover have "suffix ''SAME'' (format_f 3 speedup @ ''x SAME'')"
    by (simp add: suffix_def)
  moreover have "suffix (''p='' @ format_f 2 pvalue) (format_f 3 speedup @ ''x p='' @ format_f 2 pvalue)"
    by (simp add: suffix_def)
  ultimately show ?thesis
    by (simp add: format_speedup_def)
qed

theorem format_speedup_cases_witness:
  "format_speedup (Fin (3 / 2)) (Fin (1 / 4)) False default_pvalue_threshold = ''ERROR''
   \<and> default_is_correct
   \<and> float_less default_pvalue_threshold (Fin (1 / 4))
   \<and> format_speedup (Fin (3 / 2)) (Fin (1 / 4)) default_is_correct default_pvalue_threshold
       = ''1.500x SAME''
   \<and> suffix ''SAME''
        (format_speedup (Fin (3 / 2)) (Fin (1 / 4)) default_is_correct default_pvalue_threshold)
   \<and> \<not> float_less default_pvalue_threshold (Fin (1 / 20))
   \<and> format_speedup (Fin (3 / 2)) (Fin (1 / 20)) default_is_correct default_pvalue_threshold
       = ''1.500x p=0.05''
   \<and> suffix (''p='' @ format_f 2 (Fin (1 / 20)))
        (format_speedup (Fin (3 / 2)) (Fin (1 / 20)) default_is_correct default_pvalue_threshold)"
proof -
  have correct: "default_is_correct"
    by (simp add: default_is_correct_def)
  have above: "float_less default_pvalue_threshold (Fin (1 / 4))"
    by (simp add: default_pvalue_threshold_def)
  have below: "\<not> float_less default_pvalue_threshold (Fin (1 / 20))"
    by (simp add: default_pvalue_threshold_def)
  have same_text:
    "format_speedup (Fin (3 / 2)) (Fin (1 / 4)) default_is_correct default_pvalue_threshold
     = ''1.500x SAME''"
    by code_simp
  have p_text:
    "format_speedup (Fin (3 / 2)) (Fin (1 / 20)) default_is_correct default_pvalue_threshold
     = ''1.500x p=0.05''"
    by code_simp
  have "format_speedup (Fin (3 / 2)) (Fin (1 / 4)) False default_pvalue_threshold = ''ERROR''"
    using format_speedup_cases [of False] by blast
  moreover
  have "suffix ''SAME''
          (format_speedup (Fin (3 / 2)) (Fin (1 / 4)) default_is_correct default_pvalue_threshold)"
    using correct above
      format_speedup_cases [of default_is_correct "Fin (3 / 2)" "Fin (1 / 4)" default_pvalue_threshold]
    by blast
  moreover
  have "suffix (''p='' @ format_f 2 (Fin (1 / 20)))
          (format_speedup (Fin (3 / 2)) (Fin (1 / 20)) default_is_correct default_pvalue_threshold)"
    using correct below
      format_speedup_cases [of default_is_correct "Fin (3 / 2)" "Fin (1 / 20)" default_pvalue_threshold]
    by blast
  ultimately show ?thesis
    using correct above below same_text p_text by simp
qed

end
